theory Spec2Isabelle
  imports Main "HOL-Library.Sublist" "HOL-Library.Char_ord" "HOL-Library.List_Lexorder"
begin

section \<open>Strings\<close>

text \<open>
  A JavaScript string is a sequence of code units; it is modelled as a \<open>string\<close>
  (a list of characters). The operations below are the ones \<open>resolver.js\<close> and the
  npm wrapper module apply to strings.
\<close>

text \<open>
  \<open>s.indexOf(pat)\<close>: the position of the first occurrence of \<open>pat\<close> in \<open>s\<close>, or
  \<open>-1\<close> when there is none. \<open>index_from pat s i\<close> searches the rest \<open>s\<close> of the
  string, which starts at position \<open>i\<close>.
\<close>

primrec index_from :: "string \<Rightarrow> string \<Rightarrow> nat \<Rightarrow> int" where
  "index_from pat [] i = (if pat = [] then int i else - 1)"
| "index_from pat (c # cs) i =
     (if prefix pat (c # cs) then int i else index_from pat cs (Suc i))"

definition indexOf :: "string \<Rightarrow> string \<Rightarrow> int" where
  "indexOf s pat = index_from pat s 0"

text \<open>
  \<open>s.split(sep)\<close> for a separator of one character: the pieces between the
  occurrences of the separator, in order. \<open>cur\<close> is the piece being read.
\<close>

fun split_acc :: "char \<Rightarrow> string \<Rightarrow> string \<Rightarrow> string list" where
  "split_acc sep cur [] = [cur]"
| "split_acc sep cur (c # cs) =
     (if c = sep then cur # split_acc sep [] cs else split_acc sep (cur @ [c]) cs)"

definition split :: "string \<Rightarrow> char \<Rightarrow> string list" where
  "split s sep = split_acc sep [] s"

text \<open>\<open>s.slice(n)\<close> for \<open>n \<ge> 0\<close>: the string without its first \<open>n\<close> code units.\<close>

definition slice :: "string \<Rightarrow> nat \<Rightarrow> string" where
  "slice s n = drop n s"

section \<open>Values, errors and promises\<close>

text \<open>
  Errors are values. \<open>TypeError\<close> and \<open>ReferenceError\<close> are the two errors the
  JavaScript of this repository raises by itself; \<open>Failure\<close> stands for an error
  value handed over by a collaborator (the registry client, a stream, the
  downloader, the extractor).
\<close>

datatype error = TypeError string | ReferenceError string | Failure string

text \<open>
  The state of a promise (or of a deferred) once the event loop has run dry:
  still pending, resolved with a value, or rejected with an error. A callback-style
  collaborator is described the same way: \<open>Pending\<close> when it never calls back,
  \<open>Rejected err\<close> for \<open>cb(err)\<close>, \<open>Resolved v\<close> for \<open>cb(null, v)\<close>.
\<close>

datatype 'a promise = Pending | Resolved 'a | Rejected error

text \<open>\<open>p.then(handler)\<close> for a handler that returns a promise.\<close>

definition then_p :: "'a promise \<Rightarrow> ('a \<Rightarrow> 'b promise) \<Rightarrow> 'b promise" where
  "then_p p handler =
     (case p of Pending \<Rightarrow> Pending | Resolved v \<Rightarrow> handler v | Rejected err \<Rightarrow> Rejected err)"

text \<open>
  A handler that returns a plain value resolves the promise of its \<open>then\<close>; a handler
  that throws rejects it.
\<close>

definition settle :: "error + 'a \<Rightarrow> 'a promise" where
  "settle r = (case r of Inl err \<Rightarrow> Rejected err | Inr v \<Rightarrow> Resolved v)"

text \<open>
  \<open>deferred.reject(err)\<close> and \<open>deferred.resolve(v)\<close>: only the first settlement of a
  deferred counts.
\<close>

definition reject :: "'a promise \<Rightarrow> error \<Rightarrow> 'a promise" where
  "reject d err = (case d of Pending \<Rightarrow> Rejected err | Resolved v \<Rightarrow> d | Rejected e \<Rightarrow> d)"

definition resolve :: "'a promise \<Rightarrow> 'a \<Rightarrow> 'a promise" where
  "resolve d v = (case d of Pending \<Rightarrow> Resolved v | Resolved u \<Rightarrow> d | Rejected e \<Rightarrow> d)"

text \<open>
  The promise chain of \<open>fetch\<close> has effects (calls to collaborators, removal of
  directories), so its combinators pass a state \<open>'s\<close> along: a pair is the state of
  the promise and the state of the world when the promise has got there.
\<close>

definition then_st ::
  "'a promise \<times> 's \<Rightarrow> ('a \<Rightarrow> 's \<Rightarrow> 'b promise \<times> 's) \<Rightarrow> 'b promise \<times> 's" where
  "then_st ps handler =
     (case fst ps of
        Pending \<Rightarrow> (Pending, snd ps)
      | Resolved v \<Rightarrow> handler v (snd ps)
      | Rejected err \<Rightarrow> (Rejected err, snd ps))"

definition catch_st ::
  "'a promise \<times> 's \<Rightarrow> (error \<Rightarrow> 's \<Rightarrow> 'a promise \<times> 's) \<Rightarrow> 'a promise \<times> 's" where
  "catch_st ps handler =
     (case fst ps of
        Pending \<Rightarrow> (Pending, snd ps)
      | Resolved v \<Rightarrow> (Resolved v, snd ps)
      | Rejected err \<Rightarrow> handler err (snd ps))"

text \<open>
  \<open>p.finally(handler)\<close>: the handler runs when \<open>p\<close> settles, either way, and the
  outcome of \<open>p\<close> passes through.
\<close>

definition finally_st :: "'a promise \<times> 's \<Rightarrow> ('s \<Rightarrow> 's) \<Rightarrow> 'a promise \<times> 's" where
  "finally_st ps handler =
     (case fst ps of
        Pending \<Rightarrow> (Pending, snd ps)
      | Resolved v \<Rightarrow> (Resolved v, handler (snd ps))
      | Rejected err \<Rightarrow> (Rejected err, handler (snd ps)))"

text \<open>
  The values the registry client hands over and the host passes in: JSON data and
  \<open>undefined\<close>. An object is the list of its own properties; numbers are integers
  here (no claim depends on a number).
\<close>

datatype jsval =
    JUndefined
  | JNull
  | JBool bool
  | JNum int
  | JStr string
  | JArr "jsval list"
  | JObj "(string \<times> jsval) list"

text \<open>The truth value a condition reads off a value.\<close>

fun truthy :: "jsval \<Rightarrow> bool" where
  "truthy JUndefined = False"
| "truthy JNull = False"
| "truthy (JBool b) = b"
| "truthy (JNum n) = (n \<noteq> 0)"
| "truthy (JStr s) = (s \<noteq> [])"
| "truthy (JArr xs) = True"
| "truthy (JObj kvs) = True"

text \<open>\<open>Array.isArray\<close>.\<close>

fun isArray :: "jsval \<Rightarrow> bool" where
  "isArray (JArr xs) = True"
| "isArray v = False"

text \<open>The decimal numeral of an index, as a property key.\<close>

fun decimal :: "nat \<Rightarrow> string" where
  "decimal n =
     (if n < 10 then [char_of (48 + n)] else decimal (n div 10) @ [char_of (48 + n mod 10)])"

declare decimal.simps [simp del]

definition index_keys :: "'a list \<Rightarrow> string list" where
  "index_keys xs = map decimal [0..<length xs]"

text \<open>
  \<open>Object.keys\<close>: the own enumerable property names. It throws on \<open>undefined\<close> and
  \<open>null\<close>; a string and an array have their indices, a number and a boolean have
  none.
\<close>

fun object_keys :: "jsval \<Rightarrow> error + string list" where
  "object_keys JUndefined = Inl (TypeError ''Cannot convert undefined or null to object'')"
| "object_keys JNull = Inl (TypeError ''Cannot convert undefined or null to object'')"
| "object_keys (JBool b) = Inr []"
| "object_keys (JNum n) = Inr []"
| "object_keys (JStr s) = Inr (index_keys s)"
| "object_keys (JArr xs) = Inr (index_keys xs)"
| "object_keys (JObj kvs) = Inr (map fst kvs)"

text \<open>
  Reading a property, \<open>v[k]\<close> or \<open>v.k\<close>: it throws on \<open>undefined\<close> and \<open>null\<close> and
  yields \<open>undefined\<close> for a property the value does not have. Only own properties
  are modelled (the program reads \<open>version\<close>, \<open>versions\<close> and a key taken from
  \<open>Object.keys\<close>, none of which a prototype defines).
\<close>

fun get_prop :: "jsval \<Rightarrow> string \<Rightarrow> error + jsval" where
  "get_prop JUndefined k = Inl (TypeError (''Cannot read property '' @ k @ '' of undefined''))"
| "get_prop JNull k = Inl (TypeError (''Cannot read property '' @ k @ '' of null''))"
| "get_prop (JBool b) k = Inr JUndefined"
| "get_prop (JNum n) k = Inr JUndefined"
| "get_prop (JStr s) k =
     Inr (case map_of (zip (index_keys s) s) k of
            Some c \<Rightarrow> JStr [c]
          | None \<Rightarrow> if k = ''length'' then JNum (int (length s)) else JUndefined)"
| "get_prop (JArr xs) k =
     Inr (case map_of (zip (index_keys xs) xs) k of
            Some v \<Rightarrow> v
          | None \<Rightarrow> if k = ''length'' then JNum (int (length xs)) else JUndefined)"
| "get_prop (JObj kvs) k = Inr (case map_of kvs k of Some v \<Rightarrow> v | None \<Rightarrow> JUndefined)"

text \<open>
  A computed key: \<open>undefined\<close> (here \<open>None\<close>) is converted to the string
  \<open>undefined\<close>.
\<close>

definition property_key :: "string option \<Rightarrow> string" where
  "property_key k = (case k of None \<Rightarrow> ''undefined'' | Some s \<Rightarrow> s)"

section \<open>The collaborators\<close>

text \<open>
  The modules both files require are not part of the sources; each is a parameter.
  Node's \<open>path\<close> module is used by both files.
\<close>

record node_path =
  path_resolve :: "string list \<Rightarrow> string"
  path_join :: "string list \<Rightarrow> string"

text \<open>A package manifest: the fields \<open>name\<close> and \<open>version\<close>.\<close>

record manifest =
  man_name :: string
  man_version :: string

text \<open>
  What \<open>pacote.manifest\<close> resolves with (\<open>name\<close>, \<open>version\<close>, \<open>_integrity\<close>), and
  the \<open>info\<close> object of the cache command (\<open>manifest\<close>, \<open>integrity\<close>).
\<close>

record pkg_json =
  pj_name :: string
  pj_version :: string
  pj_integrity :: string

record info =
  info_manifest :: manifest
  info_integrity :: string

text \<open>
  A readable stream is what it will deliver: its chunks, in order, and then either
  its end or the error it signals.
\<close>

record instream =
  chunks :: "string list"
  failure :: "error option"

text \<open>The object \<open>{name, version, inputStream}\<close> the cache command resolves with.\<close>

record tarball_source =
  res_name :: string
  res_version :: string
  inputStream :: instream

text \<open>
  What the npm wrapper module requires: \<open>npm\<close> (\<open>load\<close>, which hands over
  \<open>meta\<close>, here its field \<open>version\<close>; \<open>commands.view\<close>; \<open>commands.cache.add\<close>
  in its callback form and in its promise form, which resolves with the \<open>info\<close>
  object or with nothing; \<open>cache\<close>),
  \<open>semver.lt\<close>, \<open>pacote.manifest\<close> (with the options the module finds for it),
  \<open>cacache.get.stream.byDigest\<close>, \<open>fs.createReadStream\<close>, and the failures of
  the atomic write stream: \<open>write_failure env file i\<close> is the error the stream for
  \<open>file\<close> signals at its \<open>i\<close>-th step, if any, where the steps are the writes of
  the chunks followed by the final move to \<open>file\<close>.
\<close>

record deps = node_path +
  npm_load :: "string promise"
  npm_view :: "string list \<Rightarrow> jsval promise"
  semver_lt :: "string \<Rightarrow> string \<Rightarrow> bool"
  cache_add_callback :: "string \<Rightarrow> manifest promise"
  cache_add :: "string \<Rightarrow> info option promise"
  pacote_manifest :: "string \<Rightarrow> pkg_json promise"
  npm_cache :: string
  createReadStream :: "string \<Rightarrow> instream"
  byDigest :: "string \<Rightarrow> string \<Rightarrow> instream"
  write_failure :: "string \<Rightarrow> nat \<Rightarrow> error option"

text \<open>
  What \<open>resolver.js\<close> requires besides \<open>path\<close>: the \<open>name\<close> that \<open>tmp\<close> gives
  a temporary directory, \<open>download.fetch\<close>, \<open>extract.tgz\<close>, and the property
  \<open>tarball\<close> of the object \<open>require('./npm-utils')\<close> returns: \<open>None\<close> when the
  module has no such property. The calls resolve with a URL, with the path of the
  downloaded file and with a directory.
\<close>

record modules = node_path +
  tmp_name :: "nat \<Rightarrow> string"
  npmUtils_tarball :: "(string \<Rightarrow> string \<Rightarrow> string promise) option"
  download_fetch :: "string \<Rightarrow> string \<Rightarrow> string promise"
  extract_tgz :: "string \<Rightarrow> string \<Rightarrow> string promise"

section \<open>The npm wrapper module\<close>

text \<open>
  \<open>execNpm\<close>: load npm, then run the callback, which settles the deferred; the
  deferred is rejected when npm cannot be loaded. \<open>cb meta\<close> is the state the
  callback leaves the deferred in.
\<close>

definition execNpm :: "('z deps_scheme) \<Rightarrow> (string \<Rightarrow> 'a promise) \<Rightarrow> 'a promise" where
  "execNpm env cb =
     (case npm_load env of
        Pending \<Rightarrow> Pending
      | Rejected err \<Rightarrow> Rejected err
      | Resolved meta \<Rightarrow> cb meta)"

definition execViewCommand :: "('z deps_scheme) \<Rightarrow> string list \<Rightarrow> jsval promise" where
  "execViewCommand env args = execNpm env (\<lambda>meta. npm_view env args)"

text \<open>\<open>oldNpmCache\<close>: the tarball is the file \<open>package.tgz\<close> of npm's cache.\<close>

definition oldNpmCache :: "('z deps_scheme) \<Rightarrow> string \<Rightarrow> tarball_source promise" where
  "oldNpmCache env pkg =
     then_p (cache_add_callback env pkg)
       (\<lambda>data.
          let name = man_name data;
              version = man_version data;
              tarball = path_resolve env [npm_cache env, name, version, ''package.tgz''];
              stream = createReadStream env tarball
          in Resolved \<lparr>res_name = name, res_version = version, inputStream = stream\<rparr>)"

definition getManifest :: "('z deps_scheme) \<Rightarrow> string \<Rightarrow> info promise" where
  "getManifest env pkg =
     then_p (pacote_manifest env pkg)
       (\<lambda>pkgJson.
          Resolved
            \<lparr>info_manifest = \<lparr>man_name = pj_name pkgJson, man_version = pj_version pkgJson\<rparr>,
             info_integrity = pj_integrity pkgJson\<rparr>)"

text \<open>
  \<open>newNpmCache\<close>: the cache command resolves with the \<open>info\<close> object or with
  nothing, and then the manifest is fetched; the tarball is read from the
  content-addressed cache by its digest.
\<close>

definition newNpmCache :: "('z deps_scheme) \<Rightarrow> string \<Rightarrow> tarball_source promise" where
  "newNpmCache env pkg =
     then_p
       (then_p (cache_add env pkg)
          (\<lambda>info. case info of Some i \<Rightarrow> Resolved i | None \<Rightarrow> getManifest env pkg))
       (\<lambda>info.
          let manifest = info_manifest info;
              name = man_name manifest;
              version = man_version manifest;
              cache = path_join env [npm_cache env, ''_cacache''];
              stream = byDigest env cache (info_integrity info)
          in Resolved \<lparr>res_name = name, res_version = version, inputStream = stream\<rparr>)"

definition execCacheCommand :: "('z deps_scheme) \<Rightarrow> string \<Rightarrow> tarball_source promise" where
  "execCacheCommand env pkg =
     execNpm env
       (\<lambda>meta. if semver_lt env meta ''5.0.0'' then oldNpmCache env pkg else newNpmCache env pkg)"

text \<open>
  \<open>normalizePkgName\<close>:
  \<^verbatim>\<open>name[0] === '@' ? name.substr(1).replace(/\//g, '-') : name\<close>
\<close>

definition replace_all :: "char \<Rightarrow> char \<Rightarrow> string \<Rightarrow> string" where
  "replace_all a b s = map (\<lambda>c. if c = a then b else c) s"

definition normalizePkgName :: "string \<Rightarrow> string" where
  "normalizePkgName name =
     (case name of
        [] \<Rightarrow> name
      | c # rest \<Rightarrow> if c = CHR ''@'' then replace_all (CHR ''/'') (CHR ''-'') rest else name)"

text \<open>
  \<open>getLastKey\<close>:
  \<^verbatim>\<open>const keys = Object.keys(o); keys.sort(); return keys[keys.length - 1];\<close>
  The default sort compares strings code unit by code unit; reading past the end
  of an empty array gives \<open>undefined\<close> (\<open>None\<close>).
\<close>

definition getLastKey :: "jsval \<Rightarrow> error + string option" where
  "getLastKey obj =
     (case object_keys obj of
        Inl err \<Rightarrow> Inl err
      | Inr keys \<Rightarrow>
          let sorted_keys = sort keys
          in Inr (if sorted_keys = [] then None else Some (last sorted_keys)))"

text \<open>\<open>releases\<close> of the npm wrapper module.\<close>

definition npmUtils_releases :: "('z deps_scheme) \<Rightarrow> string \<Rightarrow> jsval promise" where
  "npmUtils_releases env pkg =
     then_p (execViewCommand env [pkg, ''versions''])
       (\<lambda>data.
          if isArray data then Resolved data
          else
            (case getLastKey data of
               Inl err \<Rightarrow> Rejected err
             | Inr mostRecentVersion \<Rightarrow>
                 (case get_prop data (property_key mostRecentVersion) of
                    Inl err \<Rightarrow> Rejected err
                  | Inr entry \<Rightarrow> settle (get_prop entry ''versions''))))"

text \<open>
  The events \<open>downloadTarball\<close> listens to: \<open>error\<close> of the input stream, \<open>error\<close>
  and \<open>close\<close> of the output stream.
\<close>

datatype stream_event = SrcError error | DstError error | DstClose

text \<open>
  Modelled from the spec: the transfer \<open>inputStream.pipe(outputStream)\<close> into the
  atomic write stream, whose code is not in the sources. The content becomes
  visible at the final path only when the write completes: the chunks are
  written one by one, and when the source ends the stream moves what it wrote to
  the final path and closes. When the source signals an error the write stream is
  never ended; when a step of the write stream fails nothing is moved. The result
  is the events the two streams emit, and the content that appears at the final
  path, if any.
\<close>

fun pipe ::
  "(nat \<Rightarrow> error option) \<Rightarrow> nat \<Rightarrow> string list \<Rightarrow> error option \<Rightarrow> string
     \<Rightarrow> stream_event list \<times> string option" where
  "pipe fails i [] src_failure written =
     (case src_failure of
        Some err \<Rightarrow> ([SrcError err], None)
      | None \<Rightarrow>
          (case fails i of
             Some err \<Rightarrow> ([DstError err], None)
           | None \<Rightarrow> ([DstClose], Some written)))"
| "pipe fails i (c # cs) src_failure written =
     (case fails i of
        Some err \<Rightarrow> ([DstError err], None)
      | None \<Rightarrow> pipe fails (Suc i) cs src_failure (written @ c))"

text \<open>
  The three listeners of \<open>downloadTarball\<close>: an error of either stream rejects the
  deferred, the close of the output stream resolves it with the output file.
\<close>

fun on_event :: "string \<Rightarrow> string promise \<Rightarrow> stream_event \<Rightarrow> string promise" where
  "on_event outputFile deferred (SrcError err) = reject deferred err"
| "on_event outputFile deferred (DstError err) = reject deferred err"
| "on_event outputFile deferred DstClose = resolve deferred outputFile"

text \<open>
  \<open>downloadTarball\<close>, on a file system that maps a path to the content of the file
  there. It returns the state of the promise and the file system it leaves.
\<close>

definition downloadTarball ::
  "('z deps_scheme) \<Rightarrow> string \<Rightarrow> string \<Rightarrow> string \<Rightarrow> (string \<rightharpoonup> string)
     \<Rightarrow> string promise \<times> (string \<rightharpoonup> string)" where
  "downloadTarball env pkg version dir files =
     (case execCacheCommand env (pkg @ ''@'' @ version) of
        Pending \<Rightarrow> (Pending, files)
      | Rejected err \<Rightarrow> (Rejected err, files)
      | Resolved result \<Rightarrow>
          let stream = inputStream result;
              targetDir = path_resolve env [dir];
              name = normalizePkgName (res_name result);
              fileName = name @ ''-'' @ res_version result @ ''.tgz'';
              outputFile = path_join env [targetDir, fileName];
              transfer = pipe (write_failure env outputFile) 0 (chunks stream) (failure stream) [];
              deferred = foldl (on_event outputFile) Pending (fst transfer)
          in (deferred,
              case snd transfer of None \<Rightarrow> files | Some content \<Rightarrow> files(outputFile \<mapsto> content)))"

section \<open>The resolver\<close>

text \<open>
  \<open>extractPackageName\<close> of \<open>resolver.js\<close>:
  \<^verbatim>\<open>var parts = source.split('='); return parts[0].slice(4);\<close>
  The array \<open>split\<close> returns is never empty (\<open>split_not_empty\<close> below), so
  \<open>parts[0]\<close> is its first element.
\<close>

definition extractPackageName :: "string \<Rightarrow> string" where
  "extractPackageName source = (let parts = split source (CHR ''='') in slice (hd parts) 4)"

text \<open>\<open>match\<close>: \<^verbatim>\<open>return source.indexOf('npm+') === 0;\<close>\<close>

definition match :: "string \<Rightarrow> bool" where
  "match source = (indexOf source ''npm+'' = 0)"

text \<open>
  \<open>versions.map(f)\<close>: defined on an array; on anything else the call throws.
\<close>

fun array_map :: "jsval \<Rightarrow> (jsval \<Rightarrow> 'a) \<Rightarrow> error + 'a list" where
  "array_map (JArr xs) f = Inr (map f xs)"
| "array_map JUndefined f = Inl (TypeError ''Cannot read property map of undefined'')"
| "array_map JNull f = Inl (TypeError ''Cannot read property map of null'')"
| "array_map v f = Inl (TypeError ''versions.map is not a function'')"

text \<open>A release: the object \<open>{target: v, version: v}\<close>.\<close>

record release =
  rel_target :: jsval
  rel_version :: jsval

definition releases :: "('z deps_scheme) \<Rightarrow> string \<Rightarrow> release list promise" where
  "releases env source =
     (let pkg = extractPackageName source
      in then_p (npmUtils_releases env pkg)
           (\<lambda>versions.
              settle (array_map versions (\<lambda>v. \<lparr>rel_target = v, rel_version = v\<rparr>))))"

text \<open>
  The endpoint the host passes to \<open>fetch\<close>, and what \<open>fetch\<close> resolves with.
\<close>

record endpoint =
  source :: string
  target :: string

record fetch_result =
  tempPath :: string
  removeIgnores :: bool

text \<open>
  The world \<open>fetch\<close> acts on: the temporary directories handed out so far (a
  directory is known by its number; \<open>tmp_name\<close> gives its path), the ones that
  exist, and the calls made to the collaborators, the latest last.
\<close>

datatype call =
    TarballCall string string
  | DownloadCall string string
  | ExtractCall string string

record world =
  allocated :: nat
  live :: "nat set"
  calls :: "call list"

text \<open>
  \<open>tmp.dirSync\<close> creates a directory; the \<open>removeCallback\<close> of a directory removes
  it. Both are taken to succeed.
\<close>

definition dirSync :: "world \<Rightarrow> nat \<times> world" where
  "dirSync w = (allocated w, w\<lparr>allocated := Suc (allocated w), live := insert (allocated w) (live w)\<rparr>)"

definition removeCallback :: "nat \<Rightarrow> world \<Rightarrow> world" where
  "removeCallback d w = w\<lparr>live := live w - {d}\<rparr>"

definition called :: "call \<Rightarrow> world \<Rightarrow> world" where
  "called c w = w\<lparr>calls := calls w @ [c]\<rparr>"

text \<open>
  What a call of \<open>fetch\<close> does: it returns \<open>undefined\<close>, it throws, or it returns a
  promise.
\<close>

datatype outcome = ReturnsUndefined | Throws error | Returns "fetch_result promise"

text \<open>The condition \<open>cached && cached.version\<close>.\<close>

definition cache_hit :: "jsval \<Rightarrow> bool" where
  "cache_hit cached =
     (truthy cached \<and> (case get_prop cached ''version'' of Inl err \<Rightarrow> False | Inr v \<Rightarrow> truthy v))"

text \<open>
  \<open>fetch\<close>. Calling the property \<open>tarball\<close> of the npm wrapper module throws a
  \<open>TypeError\<close> when the module has no such property. The handler of \<open>catch\<close> is
  \<^verbatim>\<open>function() { tmpDir.removeCallback(); }\<close>
  and no variable \<open>tmpDir\<close> is declared in \<open>resolver.js\<close> (the variables in scope
  are \<open>endpoint\<close>, \<open>cached\<close>, \<open>pkg\<close>, \<open>tmpTar\<close>, \<open>tmpPackage\<close>, \<open>bower\<close>,
  \<open>extractPackageName\<close> and the five required modules), so evaluating it throws a
  \<open>ReferenceError\<close>, which rejects the promise \<open>catch\<close> returns.
\<close>

definition fetch :: "('z modules_scheme) \<Rightarrow> endpoint \<Rightarrow> jsval \<Rightarrow> world \<Rightarrow> outcome \<times> world" where
  "fetch env endpoint cached w =
     (if cache_hit cached then (ReturnsUndefined, w)
      else
        let pkg = extractPackageName (source endpoint);
            tar = dirSync w;
            tmpTar = fst tar;
            package = dirSync (snd tar);
            tmpPackage = fst package;
            w2 = snd package
        in
          (case npmUtils_tarball env of
             None \<Rightarrow> (Throws (TypeError ''npmUtils.tarball is not a function''), w2)
           | Some tarball \<Rightarrow>
               let chain =
                 finally_st
                   (catch_st
                      (then_st
                         (then_st
                            (then_st
                               (tarball pkg (target endpoint),
                                called (TarballCall pkg (target endpoint)) w2)
                               (\<lambda>url w'.
                                  (download_fetch env url (tmp_name env tmpTar),
                                   called (DownloadCall url (tmp_name env tmpTar)) w')))
                            (\<lambda>tgz w'.
                               (extract_tgz env tgz (tmp_name env tmpPackage),
                                called (ExtractCall tgz (tmp_name env tmpPackage)) w')))
                         (\<lambda>dir w'.
                            (Resolved
                               \<lparr>tempPath = path_join env [dir, ''package''],
                                removeIgnores = True\<rparr>,
                             w')))
                      (\<lambda>err w'. (Rejected (ReferenceError ''tmpDir is not defined''), w')))
                   (removeCallback tmpTar)
               in (Returns (fst chain), snd chain)))"

section \<open>Sample collaborators\<close>

text \<open>
  Concrete collaborators, on which the theorems below are run. \<open>join_slash\<close>
  stands in for \<open>path.join\<close> and \<open>path.resolve\<close> on absolute, normalised paths.
\<close>

definition join_slash :: "string list \<Rightarrow> string" where
  "join_slash parts =
     (case parts of [] \<Rightarrow> ''.'' | p # ps \<Rightarrow> foldl (\<lambda>acc q. acc @ ''/'' @ q) p ps)"

text \<open>
  A registry whose view command resolves with \<open>data\<close> and whose cache command
  resolves with the manifest \<open>man\<close>; the tarball is read from \<open>stream\<close>, and the
  write stream fails as \<open>fails\<close> says.
\<close>

definition sample_deps :: "jsval \<Rightarrow> manifest \<Rightarrow> instream \<Rightarrow> (nat \<Rightarrow> error option) \<Rightarrow> deps" where
  "sample_deps data man stream fails =
     \<lparr>path_resolve = join_slash,
      path_join = join_slash,
      npm_load = Resolved ''6.4.1'',
      npm_view = (\<lambda>args. Resolved data),
      semver_lt = (\<lambda>a b. False),
      cache_add_callback = (\<lambda>pkg. Resolved man),
      cache_add = (\<lambda>pkg. Resolved (Some \<lparr>info_manifest = man, info_integrity = ''sha512-0''\<rparr>)),
      pacote_manifest =
        (\<lambda>pkg. Resolved \<lparr>pj_name = man_name man, pj_version = man_version man,
                          pj_integrity = ''sha512-0''\<rparr>),
      npm_cache = ''/home/user/.npm'',
      createReadStream = (\<lambda>file. stream),
      byDigest = (\<lambda>cache digest. stream),
      write_failure = (\<lambda>file. fails)\<rparr>"

text \<open>A write stream that never fails, and a file system with no file.\<close>

definition no_failure :: "nat \<Rightarrow> error option" where
  "no_failure i = None"

definition no_files :: "string \<rightharpoonup> string" where
  "no_files path = None"

definition registry_url :: "string \<Rightarrow> string \<Rightarrow> string promise" where
  "registry_url pkg version = Resolved (''https://registry.npmjs.org/'' @ pkg @ ''/'' @ version)"

definition extract_ok :: "string \<Rightarrow> string \<Rightarrow> string promise" where
  "extract_ok tgz dir = Resolved dir"

definition extract_fails :: "string \<Rightarrow> string \<Rightarrow> string promise" where
  "extract_fails tgz dir = Rejected (Failure ''unexpected end of file'')"

text \<open>
  The modules of \<open>resolver.js\<close>, given the property \<open>tarball\<close> of the npm wrapper
  module and the extractor; the download always succeeds.
\<close>

definition sample_modules ::
  "(string \<Rightarrow> string \<Rightarrow> string promise) option \<Rightarrow> (string \<Rightarrow> string \<Rightarrow> string promise) \<Rightarrow> modules" where
  "sample_modules tarball extractor =
     \<lparr>path_resolve = join_slash,
      path_join = join_slash,
      tmp_name = (\<lambda>n. ''/tmp/tmp-'' @ decimal n),
      npmUtils_tarball = tarball,
      download_fetch = (\<lambda>url dir. Resolved (join_slash [dir, ''archive.tgz''])),
      extract_tgz = extractor\<rparr>"

text \<open>
  The npm wrapper module exports \<open>releases\<close> and \<open>downloadTarball\<close> and nothing
  else: as \<open>resolver.js\<close> sees it, it has no property \<open>tarball\<close>.
\<close>

definition repository_modules :: modules where
  "repository_modules = sample_modules None extract_ok"

definition fresh :: world where
  "fresh = \<lparr>allocated = 0, live = {}, calls = []\<rparr>"

section \<open>Properties of the string operations\<close>

lemma index_from_range: "index_from pat s i = - 1 \<or> int i \<le> index_from pat s i"
proof (induction s arbitrary: i)
  case Nil
  show ?case by simp
next
  case (Cons c cs)
  from Cons.IH [of "Suc i"] show ?case by auto
qed

lemma index_from_start: "index_from pat s i = int i \<longleftrightarrow> prefix pat s"
proof (cases s)
  case Nil
  then show ?thesis by auto
next
  case (Cons c cs)
  from index_from_range [of pat cs "Suc i"] have "index_from pat cs (Suc i) \<noteq> int i"
    by auto
  with Cons show ?thesis by simp
qed

lemma split_acc_not_empty: "split_acc sep cur s \<noteq> []"
  by (induction s arbitrary: cur) auto

lemma split_not_empty: "split s sep \<noteq> []"
  by (simp add: split_def split_acc_not_empty)

lemma split_acc_first:
  "hd (split_acc sep cur s) = cur @ takeWhile (\<lambda>c. c \<noteq> sep) s"
  by (induction s arbitrary: cur) auto

lemma split_first: "hd (split s sep) = takeWhile (\<lambda>c. c \<noteq> sep) s"
  by (simp add: split_def split_acc_first)

lemma extractPackageName_eq:
  "extractPackageName src = drop 4 (takeWhile (\<lambda>c. c \<noteq> CHR ''='') src)"
  by (simp add: extractPackageName_def slice_def split_first)

lemma extractPackageName_well_formed:
  assumes "CHR ''='' \<notin> set name"
  shows "extractPackageName (''npm+'' @ name @ ''='' @ tgt) = name"
proof -
  have "takeWhile (\<lambda>c. c \<noteq> CHR ''='') (name @ ''='' @ tgt) = name"
    using assms by (auto simp: takeWhile_tail takeWhile_eq_all_conv)
  then show ?thesis by (simp add: extractPackageName_eq)
qed

section \<open>The source string\<close>

text \<open>
  Claim C9. For every source string, \<open>match\<close> returns true if and only if the string
  begins with the reserved prefix \<open>npm+\<close>, that is, it is \<open>npm+\<close> followed by some
  rest.
\<close>

theorem match_iff_prefix: "match src \<longleftrightarrow> (\<exists>rest. src = ''npm+'' @ rest)"
proof -
  have "match src \<longleftrightarrow> prefix ''npm+'' src"
    using index_from_start [of "''npm+''" src 0] by (simp add: match_def indexOf_def)
  then show ?thesis by (simp add: prefix_def)
qed

section \<open>The list of releases\<close>

lemma sorted_last_Max:
  fixes ys :: "'a::linorder list"
  assumes "sorted ys" and "ys \<noteq> []"
  shows "last ys = Max (set ys)"
proof -
  have mem: "last ys \<in> set ys" using assms(2) by simp
  have "y \<le> last ys" if "y \<in> set ys" for y
  proof -
    from that obtain i where i: "i < length ys" "ys ! i = y" by (auto simp: in_set_conv_nth)
    have "ys ! i \<le> ys ! (length ys - 1)"
      using assms(1) i(1) by (intro sorted_nth_mono) auto
    with i assms(2) show ?thesis by (simp add: last_conv_nth)
  qed
  with mem show ?thesis by (intro Max_eqI [symmetric]) auto
qed

lemma sort_empty_iff:
  fixes xs :: "'a::linorder list"
  shows "sort xs = [] \<longleftrightarrow> xs = []"
proof -
  have "length (sort xs) = length xs" by simp
  then show ?thesis by (metis length_0_conv)
qed

lemma last_sort_Max:
  fixes xs :: "'a::linorder list"
  assumes "xs \<noteq> []"
  shows "last (sort xs) = Max (set xs)"
  using assms sorted_last_Max [of "sort xs"] by (simp add: sort_empty_iff)

lemma getLastKey_object:
  "kvs \<noteq> [] \<Longrightarrow> getLastKey (JObj kvs) = Inr (Some (Max (set (map fst kvs))))"
  using last_sort_Max [of "map fst kvs"]
  by (simp add: getLastKey_def Let_def sort_empty_iff del: set_map)

lemma getLastKey_no_keys: "object_keys v = Inr [] \<Longrightarrow> getLastKey v = Inr None"
  by (simp add: getLastKey_def)

lemma index_keys_empty: "index_keys xs = [] \<longleftrightarrow> xs = []"
  by (simp add: index_keys_def)

lemma get_prop_no_keys:
  assumes "object_keys v = Inr []" and "\<not> isArray v"
  shows "get_prop v ''undefined'' = Inr JUndefined"
  using assms by (cases v) (auto simp: index_keys_empty)

lemma execViewCommand_resolved:
  assumes "npm_load env = Resolved meta" and "npm_view env args = Resolved data"
  shows "execViewCommand env args = Resolved data"
  using assms by (simp add: execViewCommand_def execNpm_def)

text \<open>
  Claim C5. When the registry's view command resolves with a flat array, \<open>releases\<close>
  resolves with that array, in its order, each element \<open>v\<close> turned into the pair
  \<open>{target: v, version: v}\<close>; when it resolves with a map, the list so mapped is the
  list under \<open>versions\<close> of the entry at the key that is last in the lexicographic
  order of the keys.
\<close>

theorem releases_pairs:
  assumes load: "npm_load env = Resolved meta"
      and view: "npm_view env [extractPackageName src, ''versions''] = Resolved data"
      and shape: "data = JArr vs \<or>
          (\<exists>kvs entry. data = JObj kvs \<and> kvs \<noteq> [] \<and>
             map_of kvs (Max (set (map fst kvs))) = Some entry \<and>
             get_prop entry ''versions'' = Inr (JArr vs))"
  shows "releases env src = Resolved (map (\<lambda>v. \<lparr>rel_target = v, rel_version = v\<rparr>) vs)"
proof -
  have cmd: "execViewCommand env [extractPackageName src, ''versions''] = Resolved data"
    using load view by (rule execViewCommand_resolved)
  from shape show ?thesis
  proof
    assume "data = JArr vs"
    with cmd show ?thesis
      by (simp add: releases_def npmUtils_releases_def then_p_def settle_def)
  next
    assume "\<exists>kvs entry. data = JObj kvs \<and> kvs \<noteq> [] \<and>
             map_of kvs (Max (set (map fst kvs))) = Some entry \<and>
             get_prop entry ''versions'' = Inr (JArr vs)"
    then obtain kvs entry where d: "data = JObj kvs" "kvs \<noteq> []"
      "map_of kvs (Max (set (map fst kvs))) = Some entry"
      "get_prop entry ''versions'' = Inr (JArr vs)" by blast
    have "npmUtils_releases env (extractPackageName src) = Resolved (JArr vs)"
      using cmd d by (simp add: npmUtils_releases_def then_p_def settle_def getLastKey_object
          property_key_def del: set_map)
    then show ?thesis by (simp add: releases_def then_p_def settle_def)
  qed
qed

text \<open>
  The theorem on a map with the keys \<open>1.7.7\<close> and \<open>1.10.0\<close>: the key \<open>1.7.7\<close> is the
  last one in the lexicographic order, and its list of versions is the one mapped.
\<close>

theorem releases_pairs_witness:
  "releases
     (sample_deps
        (JObj [(''1.7.7'', JObj [(''versions'', JArr [JStr ''1.10.0'', JStr ''1.7.7''])]),
               (''1.10.0'', JObj [(''versions'', JArr [JStr ''1.10.0''])])])
        \<lparr>man_name = ''bower'', man_version = ''1.7.7''\<rparr> \<lparr>chunks = [], failure = None\<rparr>
        no_failure)
     ''npm+bower=1.7.7''
   = Resolved [\<lparr>rel_target = JStr ''1.10.0'', rel_version = JStr ''1.10.0''\<rparr>,
               \<lparr>rel_target = JStr ''1.7.7'', rel_version = JStr ''1.7.7''\<rparr>]"
proof -
  let ?kvs = "[(''1.7.7'', JObj [(''versions'', JArr [JStr ''1.10.0'', JStr ''1.7.7''])]),
               (''1.10.0'', JObj [(''versions'', JArr [JStr ''1.10.0''])])]"
  let ?env = "sample_deps (JObj ?kvs) \<lparr>man_name = ''bower'', man_version = ''1.7.7''\<rparr>
        \<lparr>chunks = [], failure = None\<rparr> no_failure"
  have m: "Max (set (map fst ?kvs)) = ''1.7.7''" by code_simp
  show ?thesis
    using releases_pairs [of ?env "''6.4.1''" "''npm+bower=1.7.7''" "JObj ?kvs"
        "[JStr ''1.10.0'', JStr ''1.7.7'']"] m
    by (simp add: sample_deps_def del: set_map)
qed

text \<open>
  Claim C10. When the registry's view command resolves with a value that is not an
  array and has no keys (an empty map), \<open>releases\<close> does not resolve with an empty
  list of versions: no key is selected, reading \<open>versions\<close> of the missing entry
  throws, and the operation rejects with that \<open>TypeError\<close>.
\<close>

theorem releases_no_keys_rejects:
  assumes load: "npm_load env = Resolved meta"
      and view: "npm_view env [extractPackageName src, ''versions''] = Resolved data"
      and "\<not> isArray data" and "object_keys data = Inr []"
  shows "releases env src = Rejected (TypeError ''Cannot read property versions of undefined'')
    \<and> releases env src \<noteq> Resolved []"
proof -
  have cmd: "execViewCommand env [extractPackageName src, ''versions''] = Resolved data"
    using load view by (rule execViewCommand_resolved)
  have "npmUtils_releases env (extractPackageName src)
          = Rejected (TypeError ''Cannot read property versions of undefined'')"
    using cmd assms(3,4)
    by (simp add: npmUtils_releases_def then_p_def settle_def getLastKey_no_keys
        get_prop_no_keys property_key_def)
  then show ?thesis by (simp add: releases_def then_p_def)
qed

theorem releases_no_keys_rejects_witness:
  "releases
     (sample_deps (JObj []) \<lparr>man_name = ''bower'', man_version = ''1.7.7''\<rparr>
        \<lparr>chunks = [], failure = None\<rparr> no_failure)
     ''npm+bower=1.7.7''
   = Rejected (TypeError ''Cannot read property versions of undefined'')"
  using releases_no_keys_rejects
    [of "sample_deps (JObj []) \<lparr>man_name = ''bower'', man_version = ''1.7.7''\<rparr>
        \<lparr>chunks = [], failure = None\<rparr> no_failure"
      "''6.4.1''" "''npm+bower=1.7.7''" "JObj []"]
  by (simp add: sample_deps_def)

section \<open>The tarball\<close>

lemma pipe_completes:
  assumes "\<forall>j. i \<le> j \<and> j \<le> i + length cs \<longrightarrow> fails j = None"
  shows "pipe fails i cs None written = ([DstClose], Some (written @ concat cs))"
  using assms
proof (induction cs arbitrary: i written)
  case Nil
  then show ?case by simp
next
  case (Cons c cs)
  from Cons.prems have here: "fails i = None" by simp
  from Cons.prems have "\<forall>j. Suc i \<le> j \<and> j \<le> Suc i + length cs \<longrightarrow> fails j = None" by simp
  from Cons.IH [OF this] here show ?case by simp
qed

lemma pipe_fails:
  assumes "src \<noteq> None \<or> (\<exists>j. i \<le> j \<and> j \<le> i + length cs \<and> fails j \<noteq> None)"
  shows "\<exists>e. (pipe fails i cs src written = ([SrcError e], None) \<and> src = Some e)
            \<or> (pipe fails i cs src written = ([DstError e], None)
                \<and> (\<exists>j. i \<le> j \<and> j \<le> i + length cs \<and> fails j = Some e))"
  using assms
proof (induction cs arbitrary: i written)
  case Nil
  then show ?case by (cases src; cases "fails i") auto
next
  case (Cons c cs)
  show ?case
  proof (cases "fails i")
    case (Some e)
    then have "pipe fails i (c # cs) src written = ([DstError e], None)" by simp
    with Some show ?thesis by (intro exI [of _ e] disjI2 conjI exI [of _ i]) auto
  next
    case None
    with Cons.prems
    have "src \<noteq> None \<or> (\<exists>j. Suc i \<le> j \<and> j \<le> Suc i + length cs \<and> fails j \<noteq> None)"
      by (metis Suc_leI add_Suc add_Suc_right le_neq_implies_less length_Cons)
    from Cons.IH [OF this, of "written @ c"] obtain e where
      e: "(pipe fails (Suc i) cs src (written @ c) = ([SrcError e], None) \<and> src = Some e)
          \<or> (pipe fails (Suc i) cs src (written @ c) = ([DstError e], None)
              \<and> (\<exists>j. Suc i \<le> j \<and> j \<le> Suc i + length cs \<and> fails j = Some e))" by blast
    have step: "pipe fails i (c # cs) src written = pipe fails (Suc i) cs src (written @ c)"
      using None by simp
    from e show ?thesis
    proof
      assume "pipe fails (Suc i) cs src (written @ c) = ([SrcError e], None) \<and> src = Some e"
      with step show ?thesis by auto
    next
      assume "pipe fails (Suc i) cs src (written @ c) = ([DstError e], None)
              \<and> (\<exists>j. Suc i \<le> j \<and> j \<le> Suc i + length cs \<and> fails j = Some e)"
      then obtain j where "pipe fails (Suc i) cs src (written @ c) = ([DstError e], None)"
        "Suc i \<le> j" "j \<le> Suc i + length cs" "fails j = Some e" by blast
      with step show ?thesis by (intro exI [of _ e] disjI2 conjI exI [of _ j]) auto
    qed
  qed
qed

text \<open>
  The listeners alone, whatever the streams emit: the first event settles the
  deferred, and no later event changes it.
\<close>

lemma settled_stays:
  assumes "deferred \<noteq> Pending"
  shows "foldl (on_event outputFile) deferred events = deferred"
  using assms
proof (induction events arbitrary: deferred)
  case Nil
  show ?case by simp
next
  case (Cons ev events)
  have "on_event outputFile deferred ev = deferred"
    using Cons.prems by (cases ev; cases deferred) (simp_all add: reject_def resolve_def)
  with Cons show ?case by simp
qed

lemma first_event_settles:
  "foldl (on_event outputFile) Pending (SrcError err # events) = Rejected err"
  "foldl (on_event outputFile) Pending (DstError err # events) = Rejected err"
  "foldl (on_event outputFile) Pending (DstClose # events) = Resolved outputFile"
  by (simp_all add: reject_def resolve_def settled_stays)

lemma normalizePkgName_scoped:
  assumes "CHR ''/'' \<notin> set scope" and "CHR ''/'' \<notin> set nm"
  shows "normalizePkgName (''@'' @ scope @ ''/'' @ nm) = scope @ ''-'' @ nm"
proof -
  have "map (\<lambda>c. if c = CHR ''/'' then CHR ''-'' else c) xs = xs" if "CHR ''/'' \<notin> set xs" for xs
    using that by (induction xs) auto
  with assms show ?thesis by (simp add: normalizePkgName_def replace_all_def)
qed

lemma normalizePkgName_unscoped:
  assumes "take 1 nm \<noteq> ''@''"
  shows "normalizePkgName nm = nm"
  using assms by (cases nm) (auto simp: normalizePkgName_def)

text \<open>
  Claim C6, as the code has it. When the cache command resolves and the transfer
  completes without an error of either stream, \<open>downloadTarball\<close> writes the whole
  content of the source stream to the path
  \<open><resolved target directory>/<normalized>-<version>.tgz\<close> and resolves with that
  path, where \<open><normalized>\<close> and \<open><version>\<close> come from the name and the version
  the cache command resolved with (not from the arguments of the call), and the
  normalization turns the scoped name \<open>@scope/name\<close> into \<open>scope-name\<close> and leaves
  an unscoped name as it is.
\<close>

theorem downloadTarball_output_file:
  assumes cache: "execCacheCommand env (pkg @ ''@'' @ version) = Resolved result"
      and out: "outputFile = path_join env [path_resolve env [dir],
                   normalizePkgName (res_name result) @ ''-'' @ res_version result @ ''.tgz'']"
      and src_ok: "failure (inputStream result) = None"
      and dst_ok: "\<forall>i. i \<le> length (chunks (inputStream result))
                     \<longrightarrow> write_failure env outputFile i = None"
      and scoped: "CHR ''/'' \<notin> set scope" "CHR ''/'' \<notin> set nm"
      and unscoped: "take 1 plain \<noteq> ''@''"
  shows "downloadTarball env pkg version dir files
           = (Resolved outputFile, files(outputFile \<mapsto> concat (chunks (inputStream result))))
    \<and> normalizePkgName (''@'' @ scope @ ''/'' @ nm) = scope @ ''-'' @ nm
    \<and> normalizePkgName plain = plain"
proof -
  have "pipe (write_failure env outputFile) 0 (chunks (inputStream result)) None []
          = ([DstClose], Some (concat (chunks (inputStream result))))"
    using pipe_completes [of 0 "chunks (inputStream result)" "write_failure env outputFile" "[]"]
      dst_ok by simp
  then have "downloadTarball env pkg version dir files
           = (Resolved outputFile, files(outputFile \<mapsto> concat (chunks (inputStream result))))"
    using cache src_ok out [symmetric]
    by (simp add: downloadTarball_def Let_def resolve_def)
  with normalizePkgName_scoped [OF scoped] normalizePkgName_unscoped [OF unscoped]
  show ?thesis by blast
qed

text \<open>
  The theorem on a registry that reports \<open>bower\<close> at \<open>1.8.0\<close>, with a source stream
  of two chunks: the file \<open>/tmp/tar/bower-1.8.0.tgz\<close> holds both.
\<close>

theorem downloadTarball_output_file_witness:
  "downloadTarball
     (sample_deps JNull \<lparr>man_name = ''bower'', man_version = ''1.8.0''\<rparr>
        \<lparr>chunks = [''ab'', ''c''], failure = None\<rparr> no_failure)
     ''bower'' ''1.8.0'' ''/tmp/tar'' no_files
     = (Resolved ''/tmp/tar/bower-1.8.0.tgz'', no_files(''/tmp/tar/bower-1.8.0.tgz'' \<mapsto> ''abc''))
   \<and> normalizePkgName ''@angular/core'' = ''angular-core''
   \<and> normalizePkgName ''bower'' = ''bower''"
proof -
  let ?env = "sample_deps JNull \<lparr>man_name = ''bower'', man_version = ''1.8.0''\<rparr>
        \<lparr>chunks = [''ab'', ''c''], failure = None\<rparr> no_failure"
  let ?result = "\<lparr>res_name = ''bower'', res_version = ''1.8.0'',
        inputStream = \<lparr>chunks = [''ab'', ''c''], failure = None\<rparr>\<rparr>"
  have cache: "execCacheCommand ?env (''bower'' @ ''@'' @ ''1.8.0'') = Resolved ?result"
    by (simp add: execCacheCommand_def execNpm_def newNpmCache_def then_p_def sample_deps_def)
  show ?thesis
    using downloadTarball_output_file [of ?env "''bower''" "''1.8.0''" ?result
        "''/tmp/tar/bower-1.8.0.tgz''" "''/tmp/tar''" "''angular''" "''core''" "''bower''" no_files]
      cache
    by (simp add: sample_deps_def join_slash_def normalizePkgName_def no_failure_def)
qed

text \<open>
  Claim C6 as stated fails: asked for \<open>bower\<close> at \<open>latest\<close> on a registry that
  resolves it to the version \<open>1.8.0\<close>, \<open>downloadTarball\<close> resolves with
  \<open>/tmp/tar/bower-1.8.0.tgz\<close>, and no file appears at
  \<open>/tmp/tar/bower-latest.tgz\<close>.
\<close>

theorem downloadTarball_version_counterexample:
  "fst (downloadTarball
     (sample_deps JNull \<lparr>man_name = ''bower'', man_version = ''1.8.0''\<rparr>
        \<lparr>chunks = [''ab'', ''c''], failure = None\<rparr> no_failure)
     ''bower'' ''latest'' ''/tmp/tar'' no_files) = Resolved ''/tmp/tar/bower-1.8.0.tgz''
   \<and> snd (downloadTarball
     (sample_deps JNull \<lparr>man_name = ''bower'', man_version = ''1.8.0''\<rparr>
        \<lparr>chunks = [''ab'', ''c''], failure = None\<rparr> no_failure)
     ''bower'' ''latest'' ''/tmp/tar'' no_files) ''/tmp/tar/bower-latest.tgz'' = None"
  by (simp add: downloadTarball_def execCacheCommand_def execNpm_def newNpmCache_def then_p_def
      sample_deps_def join_slash_def normalizePkgName_def resolve_def Let_def no_failure_def
      no_files_def)

text \<open>
  Claim C7. When the source stream or the destination stream signals an error
  during the transfer, the promise of \<open>downloadTarball\<close> rejects with the error
  signalled, it does not resolve, and the file system is as it was: nothing
  appears at the output path.
\<close>

theorem downloadTarball_stream_error:
  assumes cache: "execCacheCommand env (pkg @ ''@'' @ version) = Resolved result"
      and out: "outputFile = path_join env [path_resolve env [dir],
                   normalizePkgName (res_name result) @ ''-'' @ res_version result @ ''.tgz'']"
      and err: "failure (inputStream result) \<noteq> None
                \<or> (\<exists>i. i \<le> length (chunks (inputStream result))
                       \<and> write_failure env outputFile i \<noteq> None)"
  shows "\<exists>e. downloadTarball env pkg version dir files = (Rejected e, files)
           \<and> (failure (inputStream result) = Some e
              \<or> (\<exists>i. i \<le> length (chunks (inputStream result))
                     \<and> write_failure env outputFile i = Some e))"
proof -
  let ?stream = "inputStream result"
  from err have "failure ?stream \<noteq> None
      \<or> (\<exists>j. 0 \<le> j \<and> j \<le> 0 + length (chunks ?stream) \<and> write_failure env outputFile j \<noteq> None)"
    by simp
  from pipe_fails [OF this, of "[]"] obtain e where
    e: "(pipe (write_failure env outputFile) 0 (chunks ?stream) (failure ?stream) []
           = ([SrcError e], None) \<and> failure ?stream = Some e)
        \<or> (pipe (write_failure env outputFile) 0 (chunks ?stream) (failure ?stream) []
           = ([DstError e], None)
            \<and> (\<exists>j. 0 \<le> j \<and> j \<le> 0 + length (chunks ?stream)
                   \<and> write_failure env outputFile j = Some e))"
    by blast
  from e show ?thesis
  proof
    assume a: "pipe (write_failure env outputFile) 0 (chunks ?stream) (failure ?stream) []
           = ([SrcError e], None) \<and> failure ?stream = Some e"
    then have f: "failure ?stream = Some e"
      and "pipe (write_failure env outputFile) 0 (chunks ?stream) (Some e) []
             = ([SrcError e], None)" by auto
    then have "downloadTarball env pkg version dir files = (Rejected e, files)"
      using cache out [symmetric] by (simp add: downloadTarball_def Let_def reject_def)
    with f show ?thesis by blast
  next
    assume a: "pipe (write_failure env outputFile) 0 (chunks ?stream) (failure ?stream) []
           = ([DstError e], None)
            \<and> (\<exists>j. 0 \<le> j \<and> j \<le> 0 + length (chunks ?stream)
                   \<and> write_failure env outputFile j = Some e)"
    then have "downloadTarball env pkg version dir files = (Rejected e, files)"
      using cache out [symmetric] by (simp add: downloadTarball_def Let_def reject_def)
    with a show ?thesis by auto
  qed
qed

text \<open>
  The theorem on a source stream that signals an error after its first chunk: the
  promise rejects with that error and the file system stays empty.
\<close>

theorem downloadTarball_stream_error_witness:
  "downloadTarball
     (sample_deps JNull \<lparr>man_name = ''bower'', man_version = ''1.8.0''\<rparr>
        \<lparr>chunks = [''ab''], failure = Some (Failure ''read error'')\<rparr> no_failure)
     ''bower'' ''1.8.0'' ''/tmp/tar'' no_files
     = (Rejected (Failure ''read error''), no_files)"
proof -
  let ?env = "sample_deps JNull \<lparr>man_name = ''bower'', man_version = ''1.8.0''\<rparr>
        \<lparr>chunks = [''ab''], failure = Some (Failure ''read error'')\<rparr> no_failure"
  let ?result = "\<lparr>res_name = ''bower'', res_version = ''1.8.0'',
        inputStream = \<lparr>chunks = [''ab''], failure = Some (Failure ''read error'')\<rparr>\<rparr>"
  have cache: "execCacheCommand ?env (''bower'' @ ''@'' @ ''1.8.0'') = Resolved ?result"
    by (simp add: execCacheCommand_def execNpm_def newNpmCache_def then_p_def sample_deps_def)
  have none: "write_failure ?env f i = None" for f i
    by (simp add: sample_deps_def no_failure_def)
  show ?thesis
    using downloadTarball_stream_error [of ?env "''bower''" "''1.8.0''" ?result
        "''/tmp/tar/bower-1.8.0.tgz''" "''/tmp/tar''" no_files] cache none
    by (simp add: sample_deps_def join_slash_def normalizePkgName_def)
qed

section \<open>Fetching\<close>

lemma then_st_simps:
  "then_st (Pending, s) handler = (Pending, s)"
  "then_st (Resolved v, s) handler = handler v s"
  "then_st (Rejected err, s) handler = (Rejected err, s)"
  by (simp_all add: then_st_def)

lemma catch_st_simps:
  "catch_st (Pending, s) handler = (Pending, s)"
  "catch_st (Resolved v, s) handler = (Resolved v, s)"
  "catch_st (Rejected err, s) handler = handler err s"
  by (simp_all add: catch_st_def)

lemma finally_st_simps:
  "finally_st (Pending, s) cleanup = (Pending, s)"
  "finally_st (Resolved v, s) cleanup = (Resolved v, cleanup s)"
  "finally_st (Rejected err, s) cleanup = (Rejected err, cleanup s)"
  by (simp_all add: finally_st_def)

lemmas chain_defs =
  then_st_simps catch_st_simps finally_st_simps dirSync_def removeCallback_def called_def

lemma decimal_0: "decimal 0 = ''0''"
  by code_simp

lemma decimal_1: "decimal (Suc 0) = ''1''"
  by code_simp

lemma cache_hit_version:
  assumes "get_prop cached ''version'' = Inr v" and "truthy v"
  shows "cache_hit cached"
proof (cases cached)
  case (JStr s)
  with assms show ?thesis by (cases s) (auto simp: cache_hit_def index_keys_def)
qed (use assms in \<open>auto simp: cache_hit_def\<close>)

text \<open>
  Claim C4. Called with a \<open>cached\<close> argument whose field \<open>version\<close> is truthy,
  \<open>fetch\<close> returns \<open>undefined\<close> and leaves the world as it was: no temporary
  directory is created, no collaborator is called.
\<close>

theorem fetch_cache_hit:
  assumes "get_prop cached ''version'' = Inr v" and "truthy v"
  shows "fetch env endpoint cached w = (ReturnsUndefined, w)"
  using cache_hit_version [OF assms] by (simp add: fetch_def)

theorem fetch_cache_hit_witness:
  "fetch repository_modules \<lparr>source = ''npm+bower=1.7.7'', target = ''1.7.7''\<rparr>
     (JObj [(''version'', JStr ''1.7.7'')]) fresh = (ReturnsUndefined, fresh)"
  using fetch_cache_hit [of "JObj [(''version'', JStr ''1.7.7'')]" "JStr ''1.7.7''"
      repository_modules "\<lparr>source = ''npm+bower=1.7.7'', target = ''1.7.7''\<rparr>" fresh]
  by simp

text \<open>
  When the npm wrapper module has no property \<open>tarball\<close>, every call of \<open>fetch\<close>
  that is not a cache hit throws after it has created its two directories, and
  removes neither.
\<close>

lemma fetch_without_tarball:
  assumes "\<not> cache_hit cached" and "npmUtils_tarball env = None"
  shows "fetch env endpoint cached w
    = (Throws (TypeError ''npmUtils.tarball is not a function''),
       w\<lparr>allocated := Suc (Suc (allocated w)),
         live := insert (Suc (allocated w)) (insert (allocated w) (live w))\<rparr>)"
  using assms by (simp add: fetch_def Let_def dirSync_def)

text \<open>
  Claim C1 fails on the sources. The npm wrapper module exports \<open>releases\<close> and
  \<open>downloadTarball\<close>; \<open>fetch\<close> calls its property \<open>tarball\<close>. For the endpoint
  with source \<open>npm+bower=1.7.7\<close> and target \<open>1.7.7\<close> and no cached entry, \<open>fetch\<close>
  creates the directories \<open>0\<close> and \<open>1\<close>, throws a \<open>TypeError\<close>, calls no
  collaborator and returns no promise.
\<close>

theorem fetch_repository_throws:
  "fetch repository_modules \<lparr>source = ''npm+bower=1.7.7'', target = ''1.7.7''\<rparr> JUndefined fresh
     = (Throws (TypeError ''npmUtils.tarball is not a function''),
        \<lparr>allocated = 2, live = {0, 1}, calls = []\<rparr>)"
  by (simp add: fetch_def cache_hit_def repository_modules_def sample_modules_def fresh_def
      dirSync_def Let_def insert_commute numeral_2_eq_2)

text \<open>
  When the module does have a function \<open>tarball\<close> and the three stages succeed,
  \<open>fetch\<close> resolves with the directory \<open>package\<close> under what the extractor resolved
  with.
\<close>

lemma fetch_success:
  assumes "\<not> cache_hit cached" and "npmUtils_tarball env = Some tarball"
      and "tarball (extractPackageName (source endpoint)) (target endpoint) = Resolved url"
      and "download_fetch env url (tmp_name env (allocated w)) = Resolved tgz"
      and "extract_tgz env tgz (tmp_name env (Suc (allocated w))) = Resolved dir"
  shows "fst (fetch env endpoint cached w)
    = Returns (Resolved \<lparr>tempPath = path_join env [dir, ''package''], removeIgnores = True\<rparr>)"
  using assms by (simp add: fetch_def Let_def chain_defs)

text \<open>
  The promise chain, stage by stage. \<open>stages\<close> is the state of the promise after
  the tarball lookup, the download and the extraction; the promise \<open>fetch\<close>
  returns maps a resolved chain to the result, and a rejected one, through the
  handler of \<open>catch\<close>, to the \<open>ReferenceError\<close>. Once the promise has settled the
  tar holding directory is removed; nothing removes the extraction directory.
\<close>

lemma fetch_started:
  assumes hit: "\<not> cache_hit cached" and tb: "npmUtils_tarball env = Some tarball"
      and stages: "stages =
        then_p (then_p (tarball (extractPackageName (source endpoint)) (target endpoint))
             (\<lambda>url. download_fetch env url (tmp_name env (allocated w))))
             (\<lambda>tgz. extract_tgz env tgz (tmp_name env (Suc (allocated w))))"
  shows "fst (fetch env endpoint cached w)
      = Returns (case stages of
                   Pending \<Rightarrow> Pending
                 | Resolved dir \<Rightarrow>
                     Resolved \<lparr>tempPath = path_join env [dir, ''package''], removeIgnores = True\<rparr>
                 | Rejected err \<Rightarrow> Rejected (ReferenceError ''tmpDir is not defined''))
    \<and> live (snd (fetch env endpoint cached w))
      = (if stages = Pending then insert (Suc (allocated w)) (insert (allocated w) (live w))
         else insert (Suc (allocated w)) (insert (allocated w) (live w)) - {allocated w})"
proof (cases "tarball (extractPackageName (source endpoint)) (target endpoint)")
  case Pending
  then show ?thesis using hit tb stages
    by (simp add: fetch_def Let_def chain_defs then_p_def)
next
  case (Rejected err)
  then show ?thesis using hit tb stages
    by (simp add: fetch_def Let_def chain_defs then_p_def)
next
  case url: (Resolved url)
  show ?thesis
  proof (cases "download_fetch env url (tmp_name env (allocated w))")
    case Pending
    then show ?thesis using hit tb stages url
      by (simp add: fetch_def Let_def chain_defs then_p_def)
  next
    case (Rejected err)
    then show ?thesis using hit tb stages url
      by (simp add: fetch_def Let_def chain_defs then_p_def)
  next
    case tgz: (Resolved tgz)
    show ?thesis
    proof (cases "extract_tgz env tgz (tmp_name env (Suc (allocated w)))")
      case Pending
      then show ?thesis using hit tb stages url tgz
        by (simp add: fetch_def Let_def chain_defs then_p_def)
    next
      case (Rejected err)
      then show ?thesis using hit tb stages url tgz
        by (simp add: fetch_def Let_def chain_defs then_p_def)
    next
      case (Resolved dir)
      then show ?thesis using hit tb stages url tgz
        by (simp add: fetch_def Let_def chain_defs then_p_def)
    qed
  qed
qed

text \<open>
  When one of the three stages rejects, the handler of \<open>catch\<close> throws: the promise
  of \<open>fetch\<close> rejects with the \<open>ReferenceError\<close>, and the extraction directory is
  still there.
\<close>

lemma fetch_failure:
  assumes "\<not> cache_hit cached" and "npmUtils_tarball env = Some tarball"
      and "then_p (then_p (tarball (extractPackageName (source endpoint)) (target endpoint))
             (\<lambda>url. download_fetch env url (tmp_name env (allocated w))))
             (\<lambda>tgz. extract_tgz env tgz (tmp_name env (Suc (allocated w)))) = Rejected err"
  shows "fst (fetch env endpoint cached w) = Returns (Rejected (ReferenceError ''tmpDir is not defined''))
    \<and> Suc (allocated w) \<in> live (snd (fetch env endpoint cached w))"
  using fetch_started [OF assms(1,2) assms(3) [symmetric]] by simp

text \<open>
  Claim C2, as the code has it. For every call of \<open>fetch\<close> that is not a cache hit
  and whose promise chain is started (the npm wrapper module has a function
  \<open>tarball\<close>), a promise is returned, and once it has settled the tar holding
  directory is removed, on success and on failure alike; on success the
  extraction directory is not removed: the path \<open>fetch\<close> resolves with lies in
  it.
\<close>

theorem fetch_removes_tar_directory:
  assumes "\<not> cache_hit cached" and "npmUtils_tarball env = Some tarball"
  shows "\<exists>p w'. fetch env endpoint cached w = (Returns p, w')
           \<and> (p \<noteq> Pending \<longrightarrow> allocated w \<notin> live w')
           \<and> ((\<exists>r. p = Resolved r) \<longrightarrow> Suc (allocated w) \<in> live w')"
proof -
  define stages where "stages =
        then_p (then_p (tarball (extractPackageName (source endpoint)) (target endpoint))
             (\<lambda>url. download_fetch env url (tmp_name env (allocated w))))
             (\<lambda>tgz. extract_tgz env tgz (tmp_name env (Suc (allocated w))))"
  define p where "p = (case stages of
                   Pending \<Rightarrow> Pending
                 | Resolved dir \<Rightarrow>
                     Resolved \<lparr>tempPath = path_join env [dir, ''package''], removeIgnores = True\<rparr>
                 | Rejected err \<Rightarrow> Rejected (ReferenceError ''tmpDir is not defined''))"
  from fetch_started [OF assms stages_def]
  have r: "fst (fetch env endpoint cached w) = Returns p"
    and l: "live (snd (fetch env endpoint cached w))
      = (if stages = Pending then insert (Suc (allocated w)) (insert (allocated w) (live w))
         else insert (Suc (allocated w)) (insert (allocated w) (live w)) - {allocated w})"
    unfolding p_def by blast+
  have settled: "stages \<noteq> Pending" if "p \<noteq> Pending"
    using that by (auto simp: p_def)
  have "fetch env endpoint cached w = (Returns p, snd (fetch env endpoint cached w))"
    using r by (metis prod.collapse)
  moreover have "p \<noteq> Pending \<longrightarrow> allocated w \<notin> live (snd (fetch env endpoint cached w))"
    using l settled by auto
  moreover have "(\<exists>r. p = Resolved r) \<longrightarrow> Suc (allocated w) \<in> live (snd (fetch env endpoint cached w))"
    using l by auto
  ultimately show ?thesis by blast
qed

text \<open>
  The theorem on a call whose extraction fails: the promise is rejected, and the
  tar holding directory \<open>0\<close> is gone.
\<close>

theorem fetch_removes_tar_directory_witness:
  "\<not> cache_hit JUndefined
   \<and> fst (fetch (sample_modules (Some registry_url) extract_fails)
        \<lparr>source = ''npm+bower=1.7.7'', target = ''1.7.7''\<rparr> JUndefined fresh) \<noteq> Returns Pending
   \<and> 0 \<notin> live (snd (fetch (sample_modules (Some registry_url) extract_fails)
        \<lparr>source = ''npm+bower=1.7.7'', target = ''1.7.7''\<rparr> JUndefined fresh))"
proof -
  let ?env = "sample_modules (Some registry_url) extract_fails"
  let ?ep = "\<lparr>source = ''npm+bower=1.7.7'', target = ''1.7.7''\<rparr>"
  have hit: "\<not> cache_hit JUndefined" by (simp add: cache_hit_def)
  have tb: "npmUtils_tarball ?env = Some registry_url" by (simp add: sample_modules_def)
  have settled: "fst (fetch ?env ?ep JUndefined fresh) \<noteq> Returns Pending"
    by (simp add: fetch_def cache_hit_def sample_modules_def registry_url_def extract_fails_def
        chain_defs Let_def)
  from fetch_removes_tar_directory [OF hit tb, of ?ep fresh] settled hit
  show ?thesis by (auto simp: fresh_def)
qed

text \<open>
  Claim C2 as stated fails: when download and extraction succeed, \<open>fetch\<close> resolves
  with a path inside the extraction directory \<open>1\<close>, and that directory is still
  there when the promise has settled.
\<close>

theorem fetch_keeps_extraction_directory_counterexample:
  "fst (fetch (sample_modules (Some registry_url) extract_ok)
        \<lparr>source = ''npm+bower=1.7.7'', target = ''1.7.7''\<rparr> JUndefined fresh)
     = Returns (Resolved \<lparr>tempPath = ''/tmp/tmp-1/package'', removeIgnores = True\<rparr>)
   \<and> 1 \<in> live (snd (fetch (sample_modules (Some registry_url) extract_ok)
        \<lparr>source = ''npm+bower=1.7.7'', target = ''1.7.7''\<rparr> JUndefined fresh))"
  by (simp add: fetch_def cache_hit_def sample_modules_def registry_url_def extract_ok_def
      fresh_def chain_defs Let_def join_slash_def decimal_0 decimal_1)

text \<open>
  Claim C3 fails on the sources. With a function \<open>tarball\<close> in place and an
  extractor that rejects with \<open>unexpected end of file\<close>, the promise of \<open>fetch\<close>
  rejects with the \<open>ReferenceError\<close> of the undeclared \<open>tmpDir\<close>, not with the
  error of the extractor, and the extraction directory \<open>1\<close> is not removed; only
  the tar holding directory \<open>0\<close> is.
\<close>

theorem fetch_extraction_failure:
  "fetch (sample_modules (Some registry_url) extract_fails)
     \<lparr>source = ''npm+bower=1.7.7'', target = ''1.7.7''\<rparr> JUndefined fresh
     = (Returns (Rejected (ReferenceError ''tmpDir is not defined'')),
        \<lparr>allocated = 2, live = {1},
         calls = [TarballCall ''bower'' ''1.7.7'',
                  DownloadCall ''https://registry.npmjs.org/bower/1.7.7'' ''/tmp/tmp-0'',
                  ExtractCall ''/tmp/tmp-0/archive.tgz'' ''/tmp/tmp-1'']\<rparr>)"
  by (auto simp: fetch_def cache_hit_def sample_modules_def registry_url_def extract_fails_def
      fresh_def chain_defs Let_def join_slash_def decimal_0 decimal_1 extractPackageName_eq
      numeral_2_eq_2)

section \<open>The source string in the two operations\<close>

text \<open>
  The first call \<open>fetch\<close> makes once its chain is started is the tarball lookup,
  for the name it extracted from the source and the target of the endpoint.
\<close>

lemma fetch_first_call:
  assumes hit: "\<not> cache_hit cached" and tb: "npmUtils_tarball env = Some tarball"
  shows "calls (snd (fetch env endpoint cached w)) ! length (calls w)
    = TarballCall (extractPackageName (source endpoint)) (target endpoint)"
proof (cases "tarball (extractPackageName (source endpoint)) (target endpoint)")
  case Pending
  then show ?thesis using hit tb
    by (simp add: fetch_def Let_def chain_defs nth_append)
next
  case (Rejected err)
  then show ?thesis using hit tb
    by (simp add: fetch_def Let_def chain_defs nth_append)
next
  case url: (Resolved url)
  show ?thesis
  proof (cases "download_fetch env url (tmp_name env (allocated w))")
    case Pending
    then show ?thesis using hit tb url
      by (simp add: fetch_def Let_def chain_defs nth_append)
  next
    case (Rejected err)
    then show ?thesis using hit tb url
      by (simp add: fetch_def Let_def chain_defs nth_append)
  next
    case tgz: (Resolved tgz)
    show ?thesis
    proof (cases "extract_tgz env tgz (tmp_name env (Suc (allocated w)))")
      case Pending
      then show ?thesis using hit tb url tgz
        by (simp add: fetch_def Let_def chain_defs nth_append)
    next
      case (Rejected err)
      then show ?thesis using hit tb url tgz
        by (simp add: fetch_def Let_def chain_defs nth_append)
    next
      case (Resolved dir)
      then show ?thesis using hit tb url tgz
        by (simp add: fetch_def Let_def chain_defs nth_append)
    qed
  qed
qed

text \<open>
  Claim C8, as the code has it. For every source string \<open>npm+name=target\<close> whose
  name holds no \<open>=\<close>, \<open>releases\<close> and \<open>fetch\<close> recover the package name as exactly
  the substring between the four characters of the prefix and the first \<open>=\<close>:
  \<open>releases\<close> resolves with the mapped list of what the npm wrapper module's
  \<open>releases\<close> gives for that name, and \<open>fetch\<close>, whenever it starts its chain,
  makes its tarball lookup for that name, and the promise it returns is the chain
  that begins with that lookup. Neither of them reads a target from the source
  string: what follows the first \<open>=\<close> has no effect on \<open>releases\<close> nor on
  \<open>fetch\<close>, and the target \<open>fetch\<close> hands to the tarball lookup is the field
  \<open>target\<close> of the endpoint.
\<close>

theorem source_name_recovered:
  assumes "CHR ''='' \<notin> set name"
  shows "extractPackageName (''npm+'' @ name @ ''='' @ tgt) = name
    \<and> releases env (''npm+'' @ name @ ''='' @ tgt)
        = then_p (npmUtils_releases env name)
            (\<lambda>versions. settle (array_map versions (\<lambda>v. \<lparr>rel_target = v, rel_version = v\<rparr>)))
    \<and> releases env (''npm+'' @ name @ ''='' @ tgt) = releases env (''npm+'' @ name @ ''='' @ tgt')
    \<and> fetch menv \<lparr>source = ''npm+'' @ name @ ''='' @ tgt, target = t\<rparr> cached w
        = fetch menv \<lparr>source = ''npm+'' @ name @ ''='' @ tgt', target = t\<rparr> cached w
    \<and> (\<not> cache_hit cached \<and> npmUtils_tarball menv = Some tarball \<longrightarrow>
          calls (snd (fetch menv \<lparr>source = ''npm+'' @ name @ ''='' @ tgt, target = t\<rparr> cached w))
              ! length (calls w)
            = TarballCall name t
        \<and> fst (fetch menv \<lparr>source = ''npm+'' @ name @ ''='' @ tgt, target = t\<rparr> cached w)
            = Returns
                (case then_p
                        (then_p (tarball name t)
                           (\<lambda>url. download_fetch menv url (tmp_name menv (allocated w))))
                        (\<lambda>tgz. extract_tgz menv tgz (tmp_name menv (Suc (allocated w)))) of
                   Pending \<Rightarrow> Pending
                 | Resolved dir \<Rightarrow>
                     Resolved \<lparr>tempPath = path_join menv [dir, ''package''],
                               removeIgnores = True\<rparr>
                 | Rejected err \<Rightarrow> Rejected (ReferenceError ''tmpDir is not defined'')))"
proof -
  let ?ep = "\<lparr>source = ''npm+'' @ name @ ''='' @ tgt, target = t\<rparr>"
  have n: "extractPackageName (''npm+'' @ name @ ''='' @ x) = name" for x
    using assms by (rule extractPackageName_well_formed)
  have q: "releases env (''npm+'' @ name @ ''='' @ tgt)
        = then_p (npmUtils_releases env name)
            (\<lambda>versions. settle (array_map versions (\<lambda>v. \<lparr>rel_target = v, rel_version = v\<rparr>)))"
    unfolding releases_def n by (simp add: Let_def)
  have r: "releases env (''npm+'' @ name @ ''='' @ tgt) = releases env (''npm+'' @ name @ ''='' @ tgt')"
    unfolding releases_def n ..
  have f: "fetch menv ?ep cached w
        = fetch menv \<lparr>source = ''npm+'' @ name @ ''='' @ tgt', target = t\<rparr> cached w"
    unfolding fetch_def endpoint.simps n ..
  have c: "calls (snd (fetch menv ?ep cached w)) ! length (calls w) = TarballCall name t"
    if "\<not> cache_hit cached" and "npmUtils_tarball menv = Some tarball"
    using fetch_first_call [OF that, of ?ep w] n [of tgt] by simp
  have p: "fst (fetch menv ?ep cached w)
            = Returns
                (case then_p
                        (then_p (tarball name t)
                           (\<lambda>url. download_fetch menv url (tmp_name menv (allocated w))))
                        (\<lambda>tgz. extract_tgz menv tgz (tmp_name menv (Suc (allocated w)))) of
                   Pending \<Rightarrow> Pending
                 | Resolved dir \<Rightarrow>
                     Resolved \<lparr>tempPath = path_join menv [dir, ''package''],
                               removeIgnores = True\<rparr>
                 | Rejected err \<Rightarrow> Rejected (ReferenceError ''tmpDir is not defined''))"
    if "\<not> cache_hit cached" and "npmUtils_tarball menv = Some tarball"
    using fetch_started [OF that refl, of ?ep w] n [of tgt] by simp
  from n q r f c p show ?thesis by blast
qed

text \<open>
  The theorem at the source \<open>npm+bower=1.7.7\<close> with the endpoint's target
  \<open>1.8.0\<close>: the name is \<open>bower\<close>, the registry is asked for \<open>bower\<close>, the tarball
  lookup is made for \<open>bower\<close> at \<open>1.8.0\<close>, and putting \<open>2.0.0\<close> after the \<open>=\<close>
  changes neither operation.
\<close>

theorem source_name_recovered_witness:
  "CHR ''='' \<notin> set ''bower''
    \<and> extractPackageName ''npm+bower=1.7.7'' = ''bower''
    \<and> releases (sample_deps (JArr [JStr ''1.7.7'']) \<lparr>man_name = ''bower'', man_version = ''1.7.7''\<rparr>
          \<lparr>chunks = [], failure = None\<rparr> no_failure) ''npm+bower=1.7.7''
        = Resolved [\<lparr>rel_target = JStr ''1.7.7'', rel_version = JStr ''1.7.7''\<rparr>]
    \<and> releases (sample_deps (JArr [JStr ''1.7.7'']) \<lparr>man_name = ''bower'', man_version = ''1.7.7''\<rparr>
          \<lparr>chunks = [], failure = None\<rparr> no_failure) ''npm+bower=1.7.7''
        = releases (sample_deps (JArr [JStr ''1.7.7'']) \<lparr>man_name = ''bower'', man_version = ''1.7.7''\<rparr>
          \<lparr>chunks = [], failure = None\<rparr> no_failure) ''npm+bower=2.0.0''
    \<and> fetch (sample_modules (Some registry_url) extract_ok)
          \<lparr>source = ''npm+bower=1.7.7'', target = ''1.8.0''\<rparr> JUndefined fresh
        = fetch (sample_modules (Some registry_url) extract_ok)
          \<lparr>source = ''npm+bower=2.0.0'', target = ''1.8.0''\<rparr> JUndefined fresh
    \<and> \<not> cache_hit JUndefined
    \<and> npmUtils_tarball (sample_modules (Some registry_url) extract_ok) = Some registry_url
    \<and> calls (snd (fetch (sample_modules (Some registry_url) extract_ok)
          \<lparr>source = ''npm+bower=1.7.7'', target = ''1.8.0''\<rparr> JUndefined fresh)) ! length (calls fresh)
        = TarballCall ''bower'' ''1.8.0''
    \<and> fst (fetch (sample_modules (Some registry_url) extract_ok)
          \<lparr>source = ''npm+bower=1.7.7'', target = ''1.8.0''\<rparr> JUndefined fresh)
        = Returns (Resolved \<lparr>tempPath = ''/tmp/tmp-1/package'', removeIgnores = True\<rparr>)"
proof -
  let ?env = "sample_deps (JArr [JStr ''1.7.7'']) \<lparr>man_name = ''bower'', man_version = ''1.7.7''\<rparr>
          \<lparr>chunks = [], failure = None\<rparr> no_failure"
  let ?menv = "sample_modules (Some registry_url) extract_ok"
  have hit: "\<not> cache_hit JUndefined" by (simp add: cache_hit_def)
  have tb: "npmUtils_tarball ?menv = Some registry_url" by (simp add: sample_modules_def)
  have rel: "npmUtils_releases ?env ''bower'' = Resolved (JArr [JStr ''1.7.7''])"
    by (simp add: npmUtils_releases_def execViewCommand_def execNpm_def then_p_def sample_deps_def)
  have stages: "then_p
        (then_p (registry_url ''bower'' ''1.8.0'')
           (\<lambda>url. download_fetch ?menv url (tmp_name ?menv (allocated fresh))))
        (\<lambda>tgz. extract_tgz ?menv tgz (tmp_name ?menv (Suc (allocated fresh))))
      = Resolved ''/tmp/tmp-1''"
    by (simp add: then_p_def registry_url_def sample_modules_def extract_ok_def fresh_def
        decimal_1)
  have path: "path_join ?menv [''/tmp/tmp-1'', ''package''] = ''/tmp/tmp-1/package''"
    by (simp add: sample_modules_def join_slash_def)
  have free: "CHR ''='' \<notin> set ''bower''" by simp
  note inst = source_name_recovered [OF free, of "''1.7.7''" ?env "''2.0.0''" ?menv "''1.8.0''"
      JUndefined fresh registry_url, simplified]
  have n: "extractPackageName ''npm+bower=1.7.7'' = ''bower''"
    using inst by blast
  have q: "releases ?env ''npm+bower=1.7.7''
      = then_p (npmUtils_releases ?env ''bower'')
          (\<lambda>versions. settle (array_map versions (\<lambda>v. \<lparr>rel_target = v, rel_version = v\<rparr>)))"
    using inst by blast
  have q': "releases ?env ''npm+bower=1.7.7''
      = Resolved [\<lparr>rel_target = JStr ''1.7.7'', rel_version = JStr ''1.7.7''\<rparr>]"
    unfolding q rel by (simp add: then_p_def settle_def)
  have r: "releases ?env ''npm+bower=1.7.7'' = releases ?env ''npm+bower=2.0.0''"
    using inst by blast
  have f: "fetch ?menv \<lparr>source = ''npm+bower=1.7.7'', target = ''1.8.0''\<rparr> JUndefined fresh
      = fetch ?menv \<lparr>source = ''npm+bower=2.0.0'', target = ''1.8.0''\<rparr> JUndefined fresh"
    using inst by blast
  have c: "calls (snd (fetch ?menv \<lparr>source = ''npm+bower=1.7.7'', target = ''1.8.0''\<rparr>
        JUndefined fresh)) ! length (calls fresh) = TarballCall ''bower'' ''1.8.0''"
    using inst hit tb by blast
  have "fst (fetch ?menv \<lparr>source = ''npm+bower=1.7.7'', target = ''1.8.0''\<rparr> JUndefined fresh)
      = Returns
          (case then_p
                  (then_p (registry_url ''bower'' ''1.8.0'')
                     (\<lambda>url. download_fetch ?menv url (tmp_name ?menv (allocated fresh))))
                  (\<lambda>tgz. extract_tgz ?menv tgz (tmp_name ?menv (Suc (allocated fresh)))) of
             Pending \<Rightarrow> Pending
           | Resolved dir \<Rightarrow>
               Resolved \<lparr>tempPath = path_join ?menv [dir, ''package''], removeIgnores = True\<rparr>
           | Rejected err \<Rightarrow> Rejected (ReferenceError ''tmpDir is not defined''))"
    using inst hit tb by blast
  then have p: "fst (fetch ?menv \<lparr>source = ''npm+bower=1.7.7'', target = ''1.8.0''\<rparr> JUndefined fresh)
      = Returns (Resolved \<lparr>tempPath = ''/tmp/tmp-1/package'', removeIgnores = True\<rparr>)"
    unfolding stages by (simp add: path)
  from free n q' r f hit tb c p show ?thesis by blast
qed

text \<open>
  Claim C8 as stated fails: for the endpoint with source \<open>npm+bower=1.7.7\<close> and
  target \<open>1.8.0\<close>, the substring after the first \<open>=\<close> is \<open>1.7.7\<close>, and the target
  \<open>fetch\<close> hands to the tarball lookup is \<open>1.8.0\<close>.
\<close>

theorem fetch_target_counterexample:
  "calls (snd (fetch (sample_modules (Some registry_url) extract_ok)
      \<lparr>source = ''npm+bower=1.7.7'', target = ''1.8.0''\<rparr> JUndefined fresh)) ! 0
     = TarballCall ''bower'' ''1.8.0''
   \<and> calls (snd (fetch (sample_modules (Some registry_url) extract_ok)
      \<lparr>source = ''npm+bower=1.7.7'', target = ''1.8.0''\<rparr> JUndefined fresh)) ! 0
     \<noteq> TarballCall ''bower'' ''1.7.7''"
  by (simp add: fetch_def cache_hit_def sample_modules_def registry_url_def extract_ok_def
      fresh_def dirSync_def called_def removeCallback_def then_st_def catch_st_def
      finally_st_def extractPackageName_eq Let_def)

end
